theory Spec2Isabelle
  imports Main "HOL-Library.Sublist"
begin

section \<open>Conventions of the embedding\<close>

text \<open>
  The library is a set of C++ function templates. A template parameter becomes a type
  variable, so every definition below has the most general type its body allows.

  The named algorithms \<open>less\<close>, \<open>not_\<close>, \<open>if_\<close>, \<open>eval_if\<close>, \<open>and_\<close>, \<open>or_\<close>,
  \<open>less_equal\<close>, \<open>greater\<close> and \<open>greater_equal\<close> are function objects declared in
  \<open>fwd/logical.hpp\<close> and \<open>fwd/orderable.hpp\<close>; they dispatch on the tag of their
  operands. Those headers are not part of the sources at hand, so each function that calls
  one of them takes it as an argument, written with a prime (\<open>less'\<close>, \<open>not_'\<close>, \<open>if_'\<close>,
  ...). Perfect forwarding (\<open>detail::std::forward\<close>) moves or copies an immutable value
  and is not visible in the embedding.
\<close>

section \<open>Logical: the minimal complete definition (\<open>logical.hpp\<close>)\<close>

text \<open>\<open>Logical::mcd::or_impl(X x, Y y) { return if_(x, x, y); }\<close>\<close>

definition or_impl :: "('x \<Rightarrow> 'x \<Rightarrow> 'y \<Rightarrow> 'r) \<Rightarrow> 'x \<Rightarrow> 'y \<Rightarrow> 'r" where
  "or_impl if_' x y = if_' x x y"

text \<open>\<open>Logical::mcd::and_impl(X x, Y y) { return if_(x, y, x); }\<close>\<close>

definition and_impl :: "('x \<Rightarrow> 'y \<Rightarrow> 'x \<Rightarrow> 'r) \<Rightarrow> 'x \<Rightarrow> 'y \<Rightarrow> 'r" where
  "and_impl if_' x y = if_' x y x"

text \<open>
  \<open>Logical::mcd::if_impl(C c, T t, E e)\<close> receives both branches as values and hands
  \<open>eval_if\<close> two closures, \<open>[=](auto) { return t; }\<close> and \<open>[=](auto) { return e; }\<close>,
  each of which ignores its argument and returns the captured value.
\<close>

definition if_impl ::
  "('c \<Rightarrow> ('u \<Rightarrow> 't) \<Rightarrow> ('u \<Rightarrow> 'e) \<Rightarrow> 'r) \<Rightarrow> 'c \<Rightarrow> 't \<Rightarrow> 'e \<Rightarrow> 'r" where
  "if_impl eval_if' c t e = eval_if' c (\<lambda>_. t) (\<lambda>_. e)"

section \<open>Orderable: the minimal complete definition founded on \<open>less\<close> (\<open>orderable.hpp\<close>)\<close>

text \<open>\<open>less_equal_impl(X&& x, Y&& y) { return not_(less(y, x)); }\<close>\<close>

definition less_equal_impl :: "('y \<Rightarrow> 'x \<Rightarrow> 'c) \<Rightarrow> ('c \<Rightarrow> 'r) \<Rightarrow> 'x \<Rightarrow> 'y \<Rightarrow> 'r" where
  "less_equal_impl less' not_' x y = not_' (less' y x)"

text \<open>\<open>greater_impl(X&& x, Y&& y) { return less(y, x); }\<close>\<close>

definition greater_impl :: "('y \<Rightarrow> 'x \<Rightarrow> 'c) \<Rightarrow> 'x \<Rightarrow> 'y \<Rightarrow> 'c" where
  "greater_impl less' x y = less' y x"

text \<open>\<open>greater_equal_impl(X x, Y y) { return not_(less(x, y)); }\<close>\<close>

definition greater_equal_impl :: "('x \<Rightarrow> 'y \<Rightarrow> 'c) \<Rightarrow> ('c \<Rightarrow> 'r) \<Rightarrow> 'x \<Rightarrow> 'y \<Rightarrow> 'r" where
  "greater_equal_impl less' not_' x y = not_' (less' x y)"

text \<open>
  \<open>min_impl(X&& x, Y&& y) { decltype(auto) cond = less(x, y); return if_(cond, x, y); }\<close>
\<close>

definition min_impl :: "('x \<Rightarrow> 'y \<Rightarrow> 'c) \<Rightarrow> ('c \<Rightarrow> 'x \<Rightarrow> 'y \<Rightarrow> 'r) \<Rightarrow> 'x \<Rightarrow> 'y \<Rightarrow> 'r" where
  "min_impl less' if_' x y = (let cond = less' x y in if_' cond x y)"

text \<open>
  \<open>max_impl(X&& x, Y&& y) { decltype(auto) cond = less(x, y); return if_(cond, y, x); }\<close>
\<close>

definition max_impl :: "('x \<Rightarrow> 'y \<Rightarrow> 'c) \<Rightarrow> ('c \<Rightarrow> 'y \<Rightarrow> 'x \<Rightarrow> 'r) \<Rightarrow> 'x \<Rightarrow> 'y \<Rightarrow> 'r" where
  "max_impl less' if_' x y = (let cond = less' x y in if_' cond y x)"

section \<open>The operator bridge (\<open>logical.hpp\<close>, \<open>orderable.hpp\<close>)\<close>

text \<open>
  Each operator template of namespace \<open>operators\<close> carries a defaulted template argument
  \<open>enable_if<enable_operators<Concept, datatype_t<X>>::value || ...>\<close>. Where the condition
  is false the substitution fails and the template is no candidate for the operator
  expression: the result \<open>None\<close>. Where it is true the body runs: the result \<open>Some\<close> of what
  the body returns. The traits \<open>enable_operators\<close> (\<open>core/operators.hpp\<close>) and
  \<open>datatype_t\<close> (\<open>core/datatype.hpp\<close>) are not part of the sources at hand and are
  arguments.
\<close>

datatype concept = Logical | Orderable

text \<open>\<open>operator&&(X&& x, Y&& y) { return and_(x, y); }\<close>\<close>

definition operator_and ::
  "(concept \<Rightarrow> 'tag \<Rightarrow> bool) \<Rightarrow> ('v \<Rightarrow> 'tag) \<Rightarrow> ('v \<Rightarrow> 'v \<Rightarrow> 'r) \<Rightarrow> 'v \<Rightarrow> 'v \<Rightarrow> 'r option" where
  "operator_and enable_operators datatype_t and_' x y =
     (if enable_operators Logical (datatype_t x) \<or> enable_operators Logical (datatype_t y)
      then Some (and_' x y) else None)"

text \<open>\<open>operator||(X&& x, Y&& y) { return or_(x, y); }\<close>\<close>

definition operator_or ::
  "(concept \<Rightarrow> 'tag \<Rightarrow> bool) \<Rightarrow> ('v \<Rightarrow> 'tag) \<Rightarrow> ('v \<Rightarrow> 'v \<Rightarrow> 'r) \<Rightarrow> 'v \<Rightarrow> 'v \<Rightarrow> 'r option" where
  "operator_or enable_operators datatype_t or_' x y =
     (if enable_operators Logical (datatype_t x) \<or> enable_operators Logical (datatype_t y)
      then Some (or_' x y) else None)"

text \<open>\<open>operator!(X&& x) { return not_(x); }\<close>, enabled by the tag of its one operand.\<close>

definition operator_not ::
  "(concept \<Rightarrow> 'tag \<Rightarrow> bool) \<Rightarrow> ('v \<Rightarrow> 'tag) \<Rightarrow> ('v \<Rightarrow> 'r) \<Rightarrow> 'v \<Rightarrow> 'r option" where
  "operator_not enable_operators datatype_t not_' x =
     (if enable_operators Logical (datatype_t x) then Some (not_' x) else None)"

text \<open>\<open>operator<(X&& x, Y&& y) { return less(x, y); }\<close>\<close>

definition operator_less ::
  "(concept \<Rightarrow> 'tag \<Rightarrow> bool) \<Rightarrow> ('v \<Rightarrow> 'tag) \<Rightarrow> ('v \<Rightarrow> 'v \<Rightarrow> 'r) \<Rightarrow> 'v \<Rightarrow> 'v \<Rightarrow> 'r option" where
  "operator_less enable_operators datatype_t less' x y =
     (if enable_operators Orderable (datatype_t x) \<or> enable_operators Orderable (datatype_t y)
      then Some (less' x y) else None)"

text \<open>\<open>operator<=(X&& x, Y&& y) { return less_equal(x, y); }\<close>\<close>

definition operator_less_equal ::
  "(concept \<Rightarrow> 'tag \<Rightarrow> bool) \<Rightarrow> ('v \<Rightarrow> 'tag) \<Rightarrow> ('v \<Rightarrow> 'v \<Rightarrow> 'r) \<Rightarrow> 'v \<Rightarrow> 'v \<Rightarrow> 'r option" where
  "operator_less_equal enable_operators datatype_t less_equal' x y =
     (if enable_operators Orderable (datatype_t x) \<or> enable_operators Orderable (datatype_t y)
      then Some (less_equal' x y) else None)"

text \<open>\<open>operator>(X&& x, Y&& y) { return greater(x, y); }\<close>\<close>

definition operator_greater ::
  "(concept \<Rightarrow> 'tag \<Rightarrow> bool) \<Rightarrow> ('v \<Rightarrow> 'tag) \<Rightarrow> ('v \<Rightarrow> 'v \<Rightarrow> 'r) \<Rightarrow> 'v \<Rightarrow> 'v \<Rightarrow> 'r option" where
  "operator_greater enable_operators datatype_t greater' x y =
     (if enable_operators Orderable (datatype_t x) \<or> enable_operators Orderable (datatype_t y)
      then Some (greater' x y) else None)"

text \<open>\<open>operator>=(X&& x, Y&& y) { return greater_equal(x, y); }\<close>\<close>

definition operator_greater_equal ::
  "(concept \<Rightarrow> 'tag \<Rightarrow> bool) \<Rightarrow> ('v \<Rightarrow> 'tag) \<Rightarrow> ('v \<Rightarrow> 'v \<Rightarrow> 'r) \<Rightarrow> 'v \<Rightarrow> 'v \<Rightarrow> 'r option" where
  "operator_greater_equal enable_operators datatype_t greater_equal' x y =
     (if enable_operators Orderable (datatype_t x) \<or> enable_operators Orderable (datatype_t y)
      then Some (greater_equal' x y) else None)"

text \<open>
  Concrete operands for the examples below: a tuple of integers, whose tag \<open>Tuple\<close>
  provides the Orderable operators (\<open>fwd/tuple.hpp\<close>); a boolean constant such as \<open>true_\<close>
  (\<open>bool.hpp\<close>), whose tag is taken to provide the Logical operators; and a plain integer,
  whose tag provides none. A named algorithm is represented by the record of its call: its
  name and its operands in order.
\<close>

datatype tag = Tuple | Constant | Plain

datatype val = make_tuple "int list" | bool_constant bool | plain int

fun tag_of :: "val \<Rightarrow> tag" where
  "tag_of (make_tuple xs) = Tuple"
| "tag_of (bool_constant b) = Constant"
| "tag_of (plain i) = Plain"

fun opted_in :: "concept \<Rightarrow> tag \<Rightarrow> bool" where
  "opted_in Orderable Tuple = True"
| "opted_in Logical Constant = True"
| "opted_in c t = False"

definition named1 :: "string \<Rightarrow> val \<Rightarrow> string \<times> val list" where
  "named1 f x = (f, [x])"

definition named2 :: "string \<Rightarrow> val \<Rightarrow> val \<Rightarrow> string \<times> val list" where
  "named2 f x y = (f, [x, y])"

section \<open>The test type \<open>Numeric\<close> and its Comparable primitives (\<open>test/numeric/comparable.hpp\<close>)\<close>

text \<open>
  An object of tag \<open>test::Numeric\<close> is built by \<open>test::numeric(v)\<close> and read through its
  member \<open>value\<close>. The two primitives are templates over the operand types \<open>X\<close> and \<open>Y\<close>,
  which may hold values of different C++ types; the \<open>==\<close> and \<open>!=\<close> between the held values
  are those of C++ for the two types and are arguments (\<open>eq\<close>, \<open>neq\<close>).
\<close>

datatype 'a Numeric = numeric 'a

primrec "value" :: "'a Numeric \<Rightarrow> 'a" where
  "value (numeric v) = v"

text \<open>
  With \<open>BOOST_HANA_TEST_COMPARABLE_EQUAL_MCD\<close> defined:
  \<open>equal_impl(X x, Y y) { return test::numeric(x.value == y.value); }\<close>
\<close>

definition equal_impl :: "('a \<Rightarrow> 'b \<Rightarrow> bool) \<Rightarrow> 'a Numeric \<Rightarrow> 'b Numeric \<Rightarrow> bool Numeric" where
  "equal_impl eq x y = numeric (eq (value x) (value y))"

text \<open>
  Otherwise: \<open>not_equal_impl(X x, Y y) { return test::numeric(x.value != y.value); }\<close>
\<close>

definition not_equal_impl :: "('a \<Rightarrow> 'b \<Rightarrow> bool) \<Rightarrow> 'a Numeric \<Rightarrow> 'b Numeric \<Rightarrow> bool Numeric" where
  "not_equal_impl neq x y = numeric (neq (value x) (value y))"

section \<open>Branch selection\<close>

text \<open>
  Modelled from the spec: \<open>eval_if\<close> is a primitive of each Logical instance and no instance
  is part of the sources at hand. The specification has callers pass the branches as thunks
  and has the implementation invoke at most one of them, the one the condition selects. The
  argument \<open>truth\<close> reads the truth value of a condition (the member \<open>value\<close> of a
  \<open>test::Numeric\<close>, the constant of a boolean constant).
\<close>

definition eval_if :: "('c \<Rightarrow> bool) \<Rightarrow> 'c \<Rightarrow> (unit \<Rightarrow> 'r) \<Rightarrow> (unit \<Rightarrow> 'r) \<Rightarrow> 'r" where
  "eval_if truth c t e = (if truth c then t () else e ())"

text \<open>
  Evaluating a branch and returning it are told apart by a trace of events that every
  computation passes on: an argument expression of a call records that it was evaluated, and
  \<open>eval_if\<close> records the thunk it invokes before it runs it. \<open>returning v\<close> is a value
  already at hand, as in the body \<open>return t;\<close> of a closure that captured \<open>t\<close>;
  \<open>evaluating b v\<close> is an argument expression for branch \<open>b\<close> with value \<open>v\<close>.
\<close>

datatype branch = Then_branch | Else_branch

datatype event = Evaluated branch | Invoked branch

type_synonym 'v traced = "event list \<Rightarrow> 'v \<times> event list"

definition returning :: "'v \<Rightarrow> 'v traced" where
  "returning v tr = (v, tr)"

definition evaluating :: "branch \<Rightarrow> 'v \<Rightarrow> 'v traced" where
  "evaluating b v tr = (v, tr @ [Evaluated b])"

text \<open>
  Modelled from the spec: \<open>eval_if\<close> as above, on computations with a trace. It runs the
  thunk the condition selects, and only that one, on the trace it was given.
\<close>

definition eval_if_traced ::
  "('c \<Rightarrow> bool) \<Rightarrow> 'c \<Rightarrow> (unit \<Rightarrow> 'v traced) \<Rightarrow> (unit \<Rightarrow> 'v traced) \<Rightarrow> 'v traced" where
  "eval_if_traced truth c t e tr =
     (if truth c then t () (tr @ [Invoked Then_branch]) else e () (tr @ [Invoked Else_branch]))"

text \<open>
  A call \<open>if_(C, T, E)\<close> on three argument expressions. \<open>if_impl(C c, T t, E e)\<close> takes its
  parameters by value, so each argument expression is evaluated before the body runs, and
  the closures of the body capture the two branch values by copy (\<open>[=]\<close>). C++ leaves the
  order among the arguments open; it is taken left to right.
\<close>

definition if_impl_call ::
  "('c \<Rightarrow> ('u \<Rightarrow> 'v traced) \<Rightarrow> ('u \<Rightarrow> 'v traced) \<Rightarrow> 'v traced)
     \<Rightarrow> 'c traced \<Rightarrow> 'v traced \<Rightarrow> 'v traced \<Rightarrow> 'v traced" where
  "if_impl_call eval_if' C T E tr =
     (case C tr of (c, tr1) \<Rightarrow>
      case T tr1 of (t, tr2) \<Rightarrow>
      case E tr2 of (e, tr3) \<Rightarrow>
        if_impl eval_if' c (returning t) (returning e) tr3)"

section \<open>Set construction\<close>

text \<open>
  Modelled from the spec: \<open>set.hpp\<close>, which defines \<open>insert\<close> and \<open>make<Set>\<close>, is missing;
  \<open>test/set/make.cpp\<close> only calls it. By the specification, \<open>insert(set, value)\<close> returns the
  set unchanged if an element equal to \<open>value\<close> under the Equality concept already exists,
  and otherwise a new set with \<open>value\<close> appended; \<open>make<Set>(xs...)\<close> is repeated \<open>insert\<close>
  starting from the empty set. A set is the list of its elements in insertion order, and
  \<open>equal'\<close> is the \<open>equal\<close> of the Equality concept on the elements.
\<close>

definition insert_Set :: "('a \<Rightarrow> 'a \<Rightarrow> bool) \<Rightarrow> 'a list \<Rightarrow> 'a \<Rightarrow> 'a list" where
  "insert_Set equal' s x = (if list_ex (\<lambda>y. equal' y x) s then s else s @ [x])"

definition make_Set :: "('a \<Rightarrow> 'a \<Rightarrow> bool) \<Rightarrow> 'a list \<Rightarrow> 'a list" where
  "make_Set equal' xs = foldl (insert_Set equal') [] xs"

section \<open>The sequence algorithm \<open>take_while\<close>\<close>

text \<open>
  Modelled from the spec: the definition of \<open>take_while\<close> is missing;
  \<open>benchmark/list/take_while.cpp\<close> only calls it, as \<open>take_while(list, pred)\<close>. By the
  specification it walks the sequence in order, keeps the elements on which \<open>pred\<close> holds
  and stops at the first element on which \<open>pred\<close> is false, or at the end. Every
  evaluation of \<open>pred\<close> appends the element it is applied to to a log, which is returned
  beside the result.
\<close>

primrec take_while :: "'a list \<Rightarrow> ('a \<Rightarrow> bool) \<Rightarrow> 'a list \<Rightarrow> 'a list \<times> 'a list" where
  "take_while [] pred log = ([], log)"
| "take_while (x # xs) pred log =
     (if pred x
      then (case take_while xs pred (log @ [x]) of (r, log') \<Rightarrow> (x # r, log'))
      else ([], log @ [x]))"

section \<open>Derived operations agree with their reference definitions\<close>

text \<open>
  Claim C1. For an Orderable instance founded on the \<open>less\<close> MCD, the five derived
  operations are the reference definitions of the specification, for all operands:
  \<open>less_equal(x,y) = not_(less(y,x))\<close>, \<open>greater(x,y) = less(y,x)\<close>,
  \<open>greater_equal(x,y) = not_(less(x,y))\<close>, \<open>min(x,y) = if_(less(x,y), x, y)\<close> and
  \<open>max(x,y) = if_(less(x,y), y, x)\<close>.
\<close>

theorem less_mcd_derived_operations:
  "less_equal_impl less' not_' x y = not_' (less' y x)
   \<and> greater_impl less' x y = less' y x
   \<and> greater_equal_impl less' not_' x y = not_' (less' x y)
   \<and> min_impl less' if_' x y = if_' (less' x y) x y
   \<and> max_impl less' if_' x y = if_' (less' x y) y x"
  by (simp add: less_equal_impl_def greater_impl_def greater_equal_impl_def
      min_impl_def max_impl_def)

text \<open>
  Claim C2. For a Logical instance founded on the \<open>eval_if\<close> and \<open>not_\<close> MCD, the derived
  operations are the reference definitions of the specification, for all operands:
  \<open>or_(x,y) = if_(x, x, y)\<close>, \<open>and_(x,y) = if_(x, y, x)\<close> and \<open>if_(c,t,e)\<close> is \<open>eval_if\<close>
  applied to \<open>c\<close>, a thunk returning \<open>t\<close> and a thunk returning \<open>e\<close>.
\<close>

theorem logical_mcd_derived_operations:
  "or_impl if_or x y = if_or x x y
   \<and> and_impl if_and x y = if_and x y x
   \<and> if_impl eval_if' c t e = eval_if' c (\<lambda>_. t) (\<lambda>_. e)"
  by (simp add: or_impl_def and_impl_def if_impl_def)

text \<open>
  On a linear order whose \<open>less\<close> is \<open><\<close>, with negation for \<open>not_\<close> and the \<open>if_\<close> of
  \<open>Logical::mcd\<close>, the derived operations are the order's own \<open>\<le>\<close>, \<open>>\<close>, \<open>\<ge>\<close>, \<open>min\<close> and
  \<open>max\<close>.
\<close>

lemma less_mcd_on_linorder:
  fixes x y :: "'a::linorder"
  shows "less_equal_impl (<) Not x y = (x \<le> y)"
    and "greater_impl (<) x y = (x > y)"
    and "greater_equal_impl (<) Not x y = (x \<ge> y)"
    and "min_impl (<) (if_impl (eval_if (\<lambda>b. b))) x y = min x y"
    and "max_impl (<) (if_impl (eval_if (\<lambda>b. b))) x y = max x y"
  by (auto simp: less_equal_impl_def greater_impl_def greater_equal_impl_def min_impl_def
      max_impl_def if_impl_def eval_if_def min_def max_def)

section \<open>Minimum and maximum select opposite operands\<close>

text \<open>
  Claim C10. Under the \<open>less\<close> MCD, \<open>min\<close> and \<open>max\<close> return one of their two arguments and
  select oppositely on the same condition: if \<open>less(x,y)\<close> holds then \<open>min(x,y) = x\<close> and
  \<open>max(x,y) = y\<close>, otherwise \<open>min(x,y) = y\<close> and \<open>max(x,y) = x\<close>; together they return
  both arguments, one each. The \<open>if_\<close> they call is that of \<open>Logical::mcd\<close> on a selecting
  \<open>eval_if\<close>.
\<close>

theorem min_max_opposite_selection:
  "(truth (less' x y) \<longrightarrow>
      min_impl less' (if_impl (eval_if truth)) x y = x
      \<and> max_impl less' (if_impl (eval_if truth)) x y = y)
   \<and> (\<not> truth (less' x y) \<longrightarrow>
      min_impl less' (if_impl (eval_if truth)) x y = y
      \<and> max_impl less' (if_impl (eval_if truth)) x y = x)
   \<and> (min_impl less' (if_impl (eval_if truth)) x y = x
        \<and> max_impl less' (if_impl (eval_if truth)) x y = y
      \<or> min_impl less' (if_impl (eval_if truth)) x y = y
        \<and> max_impl less' (if_impl (eval_if truth)) x y = x)"
  by (simp add: min_impl_def max_impl_def if_impl_def eval_if_def)

theorem min_max_opposite_selection_witness:
  "(1::int) < 2
   \<and> min_impl (\<lambda>a b. a < b) (if_impl (eval_if (\<lambda>b. b))) (1::int) 2 = 1
   \<and> max_impl (\<lambda>a b. a < b) (if_impl (eval_if (\<lambda>b. b))) (1::int) 2 = 2
   \<and> \<not> (2::int) < 1
   \<and> min_impl (\<lambda>a b. a < b) (if_impl (eval_if (\<lambda>b. b))) (2::int) 1 = 1
   \<and> max_impl (\<lambda>a b. a < b) (if_impl (eval_if (\<lambda>b. b))) (2::int) 1 = 2"
  using min_max_opposite_selection [of "\<lambda>b. b" "\<lambda>a b. a < b" "1::int" 2]
    min_max_opposite_selection [of "\<lambda>b. b" "\<lambda>a b. a < b" "2::int" 1]
  by simp

section \<open>What \<open>eval_if\<close> and \<open>if_\<close> evaluate\<close>

lemma eval_if_traced_value:
  "fst (eval_if_traced truth c (\<lambda>_. returning a) (\<lambda>_. returning b) tr)
     = eval_if truth c (\<lambda>_. a) (\<lambda>_. b)"
  by (simp add: eval_if_traced_def eval_if_def returning_def)

text \<open>
  Claim C3, as the code has it. For every condition \<open>c\<close> and thunks \<open>t\<close>, \<open>e\<close>, \<open>eval_if\<close>
  invokes exactly one of the two thunks, the one the condition selects; the other thunk is
  never invoked, whatever it would do. \<open>if_\<close> takes its two branches by value: in a call
  both branch expressions are evaluated before the body runs, whatever the condition is,
  and only the return of the untaken value through its thunk is left out. In particular
  \<open>if_(true_, 10, 20)\<close> returns \<open>10\<close>, with \<open>10\<close> and \<open>20\<close> both evaluated and only the thunk
  of \<open>10\<close> invoked. A branch handed to \<open>eval_if\<close> itself as a thunk is evaluated only if it
  is selected.
\<close>

theorem if_evaluates_both_invokes_selected:
  "eval_if_traced truth c t e tr =
     (if truth c then t () (tr @ [Invoked Then_branch]) else e () (tr @ [Invoked Else_branch]))
   \<and> (if truth c then eval_if_traced truth c t e tr = eval_if_traced truth c t e' tr
       else eval_if_traced truth c t e tr = eval_if_traced truth c t' e tr)
   \<and> eval_if_traced truth c (\<lambda>_. evaluating Then_branch a) (\<lambda>_. evaluating Else_branch b) tr =
       (if truth c then (a, tr @ [Invoked Then_branch, Evaluated Then_branch])
        else (b, tr @ [Invoked Else_branch, Evaluated Else_branch]))
   \<and> if_impl (eval_if_traced truth) c (returning a) (returning b) tr =
       (if truth c then (a, tr @ [Invoked Then_branch]) else (b, tr @ [Invoked Else_branch]))
   \<and> if_impl_call (eval_if_traced truth) (returning c)
         (evaluating Then_branch a) (evaluating Else_branch b) tr =
       (if truth c then a else b,
        tr @ [Evaluated Then_branch, Evaluated Else_branch,
              Invoked (if truth c then Then_branch else Else_branch)])
   \<and> if_impl_call (eval_if_traced (\<lambda>b. b)) (returning True)
         (evaluating Then_branch (10::int)) (evaluating Else_branch 20) [] =
       (10, [Evaluated Then_branch, Evaluated Else_branch, Invoked Then_branch])"
  by (simp add: eval_if_traced_def if_impl_def if_impl_call_def returning_def evaluating_def)

text \<open>
  That \<open>if_(true_, 10, 20)\<close> leaves the \<open>20\<close> branch unevaluated does not hold: the call
  returns \<open>10\<close> and its trace holds the evaluation of the else branch.
\<close>

theorem if_untaken_branch_evaluated_counterexample:
  "fst (if_impl_call (eval_if_traced (\<lambda>b. b)) (returning True)
         (evaluating Then_branch (10::int)) (evaluating Else_branch 20) []) = 10
   \<and> Evaluated Else_branch \<in> set (snd (if_impl_call (eval_if_traced (\<lambda>b. b)) (returning True)
         (evaluating Then_branch (10::int)) (evaluating Else_branch 20) []))"
  by (simp add: eval_if_traced_def if_impl_def if_impl_call_def returning_def evaluating_def)

section \<open>The operator bridge and its opt-in\<close>

text \<open>
  Claim C6. For operands whose tags have not opted into the operators of a concept, the
  operator bridge of that concept is not triggered: none of \<open>&&\<close>, \<open>||\<close>, \<open>!\<close> (Logical)
  and \<open><\<close>, \<open><=\<close>, \<open>>\<close>, \<open>>=\<close> (Orderable) on such operands reaches the named algorithm.
\<close>

theorem operators_need_opt_in:
  "(\<not> enable_operators Logical (datatype_t x) \<and> \<not> enable_operators Logical (datatype_t y) \<longrightarrow>
      operator_and enable_operators datatype_t and_' x y = None
      \<and> operator_or enable_operators datatype_t or_' x y = None)
   \<and> (\<not> enable_operators Logical (datatype_t x) \<longrightarrow>
      operator_not enable_operators datatype_t not_' x = None)
   \<and> (\<not> enable_operators Orderable (datatype_t x) \<and> \<not> enable_operators Orderable (datatype_t y) \<longrightarrow>
      operator_less enable_operators datatype_t less' x y = None
      \<and> operator_less_equal enable_operators datatype_t less_equal' x y = None
      \<and> operator_greater enable_operators datatype_t greater' x y = None
      \<and> operator_greater_equal enable_operators datatype_t greater_equal' x y = None)"
  by (simp add: operator_and_def operator_or_def operator_not_def operator_less_def
      operator_less_equal_def operator_greater_def operator_greater_equal_def)

theorem operators_need_opt_in_witness:
  "\<not> opted_in Logical (tag_of (plain 1)) \<and> \<not> opted_in Logical (tag_of (plain 2))
   \<and> \<not> opted_in Orderable (tag_of (plain 1)) \<and> \<not> opted_in Orderable (tag_of (plain 2))
   \<and> operator_and opted_in tag_of (named2 ''and_'') (plain 1) (plain 2) = None
   \<and> operator_or opted_in tag_of (named2 ''or_'') (plain 1) (plain 2) = None
   \<and> operator_not opted_in tag_of (named1 ''not_'') (plain 1) = None
   \<and> operator_less opted_in tag_of (named2 ''less'') (plain 1) (plain 2) = None
   \<and> operator_less_equal opted_in tag_of (named2 ''less_equal'') (plain 1) (plain 2) = None
   \<and> operator_greater opted_in tag_of (named2 ''greater'') (plain 1) (plain 2) = None
   \<and> operator_greater_equal opted_in tag_of (named2 ''greater_equal'') (plain 1) (plain 2) = None"
  using operators_need_opt_in [of opted_in tag_of "plain 1" "plain 2" "named2 ''and_''"
      "named2 ''or_''" "named1 ''not_''" "named2 ''less''" "named2 ''less_equal''"
      "named2 ''greater''" "named2 ''greater_equal''"]
  by simp

text \<open>
  Claim C7. Wherever the bridge applies, an operator returns exactly what the canonical
  named call returns on the same operands in the same order: \<open>x && y\<close> is \<open>and_(x,y)\<close>,
  \<open>x || y\<close> is \<open>or_(x,y)\<close>, \<open>!x\<close> is \<open>not_(x)\<close>, \<open>x < y\<close> is \<open>less(x,y)\<close>, \<open>x <= y\<close> is
  \<open>less_equal(x,y)\<close>, \<open>x > y\<close> is \<open>greater(x,y)\<close> and \<open>x >= y\<close> is \<open>greater_equal(x,y)\<close>.
\<close>

theorem operators_return_named_call:
  "(operator_and enable_operators datatype_t and_' x y \<noteq> None \<longrightarrow>
      operator_and enable_operators datatype_t and_' x y = Some (and_' x y))
   \<and> (operator_or enable_operators datatype_t or_' x y \<noteq> None \<longrightarrow>
      operator_or enable_operators datatype_t or_' x y = Some (or_' x y))
   \<and> (operator_not enable_operators datatype_t not_' x \<noteq> None \<longrightarrow>
      operator_not enable_operators datatype_t not_' x = Some (not_' x))
   \<and> (operator_less enable_operators datatype_t less' x y \<noteq> None \<longrightarrow>
      operator_less enable_operators datatype_t less' x y = Some (less' x y))
   \<and> (operator_less_equal enable_operators datatype_t less_equal' x y \<noteq> None \<longrightarrow>
      operator_less_equal enable_operators datatype_t less_equal' x y = Some (less_equal' x y))
   \<and> (operator_greater enable_operators datatype_t greater' x y \<noteq> None \<longrightarrow>
      operator_greater enable_operators datatype_t greater' x y = Some (greater' x y))
   \<and> (operator_greater_equal enable_operators datatype_t greater_equal' x y \<noteq> None \<longrightarrow>
      operator_greater_equal enable_operators datatype_t greater_equal' x y =
        Some (greater_equal' x y))"
  by (simp add: operator_and_def operator_or_def operator_not_def operator_less_def
      operator_less_equal_def operator_greater_def operator_greater_equal_def)

theorem operators_return_named_call_witness:
  "operator_and opted_in tag_of (named2 ''and_'') (bool_constant True) (bool_constant False)
       \<noteq> None
   \<and> operator_and opted_in tag_of (named2 ''and_'') (bool_constant True) (bool_constant False)
       = Some (''and_'', [bool_constant True, bool_constant False])
   \<and> operator_or opted_in tag_of (named2 ''or_'') (bool_constant True) (bool_constant False)
       = Some (''or_'', [bool_constant True, bool_constant False])
   \<and> operator_not opted_in tag_of (named1 ''not_'') (bool_constant True)
       = Some (''not_'', [bool_constant True])
   \<and> operator_less opted_in tag_of (named2 ''less'') (make_tuple [1]) (make_tuple [2]) \<noteq> None
   \<and> operator_less opted_in tag_of (named2 ''less'') (make_tuple [1]) (make_tuple [2])
       = Some (''less'', [make_tuple [1], make_tuple [2]])
   \<and> operator_less_equal opted_in tag_of (named2 ''less_equal'') (make_tuple [1]) (make_tuple [2])
       = Some (''less_equal'', [make_tuple [1], make_tuple [2]])
   \<and> operator_greater opted_in tag_of (named2 ''greater'') (make_tuple [1]) (make_tuple [2])
       = Some (''greater'', [make_tuple [1], make_tuple [2]])
   \<and> operator_greater_equal opted_in tag_of (named2 ''greater_equal'') (make_tuple [1])
         (make_tuple [2]) = Some (''greater_equal'', [make_tuple [1], make_tuple [2]])"
proof -
  have logical:
    "operator_and opted_in tag_of f (bool_constant True) (bool_constant False) \<noteq> None"
    "operator_or opted_in tag_of f (bool_constant True) (bool_constant False) \<noteq> None"
    "operator_not opted_in tag_of g (bool_constant True) \<noteq> None"
    for f :: "val \<Rightarrow> val \<Rightarrow> string \<times> val list" and g :: "val \<Rightarrow> string \<times> val list"
    by (simp_all add: operator_and_def operator_or_def operator_not_def)
  have orderable:
    "operator_less opted_in tag_of f (make_tuple [1]) (make_tuple [2]) \<noteq> None"
    "operator_less_equal opted_in tag_of f (make_tuple [1]) (make_tuple [2]) \<noteq> None"
    "operator_greater opted_in tag_of f (make_tuple [1]) (make_tuple [2]) \<noteq> None"
    "operator_greater_equal opted_in tag_of f (make_tuple [1]) (make_tuple [2]) \<noteq> None"
    for f :: "val \<Rightarrow> val \<Rightarrow> string \<times> val list"
    by (simp_all add: operator_less_def operator_less_equal_def operator_greater_def
        operator_greater_equal_def)
  show ?thesis
    using operators_return_named_call [of opted_in tag_of "named2 ''and_''"
        "bool_constant True" "bool_constant False" "named2 ''or_''" "named1 ''not_''"
        "named2 ''less''" "named2 ''less_equal''" "named2 ''greater''" "named2 ''greater_equal''"]
      operators_return_named_call [of opted_in tag_of "named2 ''and_''"
        "make_tuple [1]" "make_tuple [2]" "named2 ''or_''" "named1 ''not_''"
        "named2 ''less''" "named2 ''less_equal''" "named2 ''greater''" "named2 ''greater_equal''"]
    by (simp add: logical orderable named1_def named2_def)
qed

text \<open>
  Claim C9. A binary bridged operator is enabled as soon as the tag of one of its two
  operands has opted in, also when the tag of the other has not: then \<open>x && y\<close>, \<open>x || y\<close>
  and \<open>x < y\<close> (and \<open><=\<close>, \<open>>\<close>, \<open>>=\<close>) dispatch to \<open>and_(x,y)\<close>, \<open>or_(x,y)\<close> and
  \<open>less(x,y)\<close>. Only the unary \<open>!\<close> depends on the tag of its single operand.
\<close>

theorem binary_operator_one_opt_in_suffices:
  "(enable_operators Logical (datatype_t x) \<or> enable_operators Logical (datatype_t y) \<longrightarrow>
      operator_and enable_operators datatype_t and_' x y = Some (and_' x y)
      \<and> operator_or enable_operators datatype_t or_' x y = Some (or_' x y))
   \<and> (enable_operators Orderable (datatype_t x) \<or> enable_operators Orderable (datatype_t y) \<longrightarrow>
      operator_less enable_operators datatype_t less' x y = Some (less' x y)
      \<and> operator_less_equal enable_operators datatype_t less_equal' x y = Some (less_equal' x y)
      \<and> operator_greater enable_operators datatype_t greater' x y = Some (greater' x y)
      \<and> operator_greater_equal enable_operators datatype_t greater_equal' x y =
          Some (greater_equal' x y))
   \<and> operator_not enable_operators datatype_t not_' x =
       (if enable_operators Logical (datatype_t x) then Some (not_' x) else None)"
  by (simp add: operator_and_def operator_or_def operator_not_def operator_less_def
      operator_less_equal_def operator_greater_def operator_greater_equal_def)

theorem binary_operator_one_opt_in_suffices_witness:
  "opted_in Logical (tag_of (bool_constant True)) \<and> \<not> opted_in Logical (tag_of (plain 3))
   \<and> operator_and opted_in tag_of (named2 ''and_'') (bool_constant True) (plain 3)
       = Some (''and_'', [bool_constant True, plain 3])
   \<and> operator_or opted_in tag_of (named2 ''or_'') (bool_constant True) (plain 3)
       = Some (''or_'', [bool_constant True, plain 3])
   \<and> operator_not opted_in tag_of (named1 ''not_'') (bool_constant True)
       = Some (''not_'', [bool_constant True])
   \<and> opted_in Orderable (tag_of (make_tuple [1, 2])) \<and> \<not> opted_in Orderable (tag_of (plain 3))
   \<and> operator_less opted_in tag_of (named2 ''less'') (make_tuple [1, 2]) (plain 3)
       = Some (''less'', [make_tuple [1, 2], plain 3])
   \<and> operator_less opted_in tag_of (named2 ''less'') (plain 3) (make_tuple [1, 2])
       = Some (''less'', [plain 3, make_tuple [1, 2]])
   \<and> operator_not opted_in tag_of (named1 ''not_'') (plain 3) = None"
  using binary_operator_one_opt_in_suffices [of opted_in tag_of "bool_constant True" "plain 3"
      "named2 ''and_''" "named2 ''or_''" "named2 ''less''" "named2 ''less_equal''"
      "named2 ''greater''" "named2 ''greater_equal''" "named1 ''not_''"]
    binary_operator_one_opt_in_suffices [of opted_in tag_of "make_tuple [1, 2]" "plain 3"
      "named2 ''and_''" "named2 ''or_''" "named2 ''less''" "named2 ''less_equal''"
      "named2 ''greater''" "named2 ''greater_equal''" "named1 ''not_''"]
    binary_operator_one_opt_in_suffices [of opted_in tag_of "plain 3" "make_tuple [1, 2]"
      "named2 ''and_''" "named2 ''or_''" "named2 ''less''" "named2 ''less_equal''"
      "named2 ''greater''" "named2 ''greater_equal''" "named1 ''not_''"]
  by (simp add: named1_def named2_def)

section \<open>The two Comparable primitives of \<open>Numeric\<close>\<close>

text \<open>
  Where \<open>!=\<close> on the held values is the negation of \<open>==\<close>, the two primitives hold opposite
  truth values on all operands.
\<close>

lemma Numeric_primitives_complementary:
  assumes "\<And>a b. neq a b = (\<not> eq a b)"
  shows "value (not_equal_impl neq x y) = (\<not> value (equal_impl eq x y))"
  by (simp add: assms not_equal_impl_def equal_impl_def)

section \<open>Set construction removes duplicates\<close>

lemma insert_Set_present:
  "list_ex (\<lambda>y. equal' y x) s \<Longrightarrow> insert_Set equal' s x = s"
  by (simp add: insert_Set_def)

lemma insert_Set_contains:
  "equal' x x \<Longrightarrow> list_ex (\<lambda>y. equal' y x) (insert_Set equal' s x)"
  by (simp add: insert_Set_def list_ex_iff)

text \<open>
  On pairwise distinct elements, as in \<open>test/set/make.cpp\<close> (\<open>x<0>\<close>, \<open>x<1>\<close>, \<open>x<2>\<close>),
  \<open>make<Set>\<close> keeps every element, in the order given.
\<close>

lemma make_Set_distinct: "distinct xs \<Longrightarrow> make_Set (=) xs = xs"
proof (induction xs rule: rev_induct)
  case Nil
  then show ?case by (simp add: make_Set_def)
next
  case (snoc x xs)
  then have "make_Set (=) xs = xs" and "x \<notin> set xs" by simp_all
  then show ?case by (auto simp: make_Set_def insert_Set_def list_ex_iff)
qed

text \<open>
  Claim C4. Set construction removes duplicates under the Equality concept, whose \<open>equal\<close>
  relates every element to itself: \<open>make<Set>(x, x)\<close> is \<open>make<Set>(x)\<close>; inserting an
  element that is already present returns the set unchanged, so that
  \<open>insert(insert(S,x),x)\<close> is \<open>insert(S,x)\<close>; and \<open>make<Set>(xs...)\<close> is repeated \<open>insert\<close>
  starting from the empty set.
\<close>

theorem make_Set_dedup:
  assumes "equal' x x"
  shows "make_Set equal' [x, x] = make_Set equal' [x]
   \<and> insert_Set equal' (insert_Set equal' S x) x = insert_Set equal' S x
   \<and> make_Set equal' [] = []
   \<and> make_Set equal' (xs @ [y]) = insert_Set equal' (make_Set equal' xs) y"
proof -
  have twice: "insert_Set equal' (insert_Set equal' s x) x = insert_Set equal' s x" for s
    using assms by (intro insert_Set_present insert_Set_contains)
  have "make_Set equal' [x, x] = insert_Set equal' (insert_Set equal' [] x) x"
    by (simp add: make_Set_def)
  also have "\<dots> = insert_Set equal' [] x"
    by (rule twice)
  also have "\<dots> = make_Set equal' [x]"
    by (simp add: make_Set_def)
  finally have "make_Set equal' [x, x] = make_Set equal' [x]" .
  moreover have "make_Set equal' [] = []"
    by (simp add: make_Set_def)
  moreover have "make_Set equal' (xs @ [y]) = insert_Set equal' (make_Set equal' xs) y"
    by (simp add: make_Set_def)
  ultimately show ?thesis
    using twice by simp
qed

theorem make_Set_dedup_witness:
  "(1::int) = 1
   \<and> make_Set (=) [1::int, 1] = make_Set (=) [1]
   \<and> make_Set (=) [1::int, 1] = [1]
   \<and> insert_Set (=) (insert_Set (=) [2::int] 1) 1 = insert_Set (=) [2] 1
   \<and> insert_Set (=) [2::int] 1 = [2, 1]
   \<and> make_Set (=) ([3, 1] @ [3::int]) = insert_Set (=) (make_Set (=) [3, 1]) 3"
proof -
  have refl: "(1::int) = 1" by simp
  show ?thesis
    using make_Set_dedup [of "(=)" "1::int" "[2]" "[3, 1]" 3, OF refl]
    by (simp add: make_Set_def insert_Set_def)
qed

section \<open>\<open>take_while\<close> returns the longest qualifying prefix\<close>

lemma take_while_takeWhile:
  "take_while s p log = (takeWhile p s, log @ take (Suc (length (takeWhile p s))) s)"
  by (induction s arbitrary: log) simp_all

lemma takeWhile_longest:
  "prefix ys s \<Longrightarrow> list_all p ys \<Longrightarrow> prefix ys (takeWhile p s)"
  by (induction s arbitrary: ys) (auto simp: prefix_Cons)

lemma takeWhile_stops:
  "takeWhile p s \<noteq> s \<Longrightarrow> \<not> p (s ! length (takeWhile p s))"
  by (induction s) (auto split: if_splits)

text \<open>
  Claim C5. For every sequence \<open>s\<close> and predicate \<open>p\<close>, \<open>take_while(s, p)\<close> is the longest
  prefix of \<open>s\<close> on which \<open>p\<close> holds for every element: it is a prefix, \<open>p\<close> holds on all
  of it, and every prefix of \<open>s\<close> on which \<open>p\<close> holds throughout is a prefix of it. Unless
  it is all of \<open>s\<close>, the element of \<open>s\<close> that follows it fails \<open>p\<close>. The predicate is
  evaluated, in order, on the returned prefix and on that one failing element, and on
  nothing else; with a predicate that always holds, as in the benchmark, it is evaluated
  on each element once. \<open>take_while([1,2,3,4], \<lambda>v. v<3)\<close> is \<open>[1,2]\<close>.
\<close>

theorem take_while_longest_prefix:
  "prefix (fst (take_while s p log)) s
   \<and> list_all p (fst (take_while s p log))
   \<and> (\<forall>ys. prefix ys s \<and> list_all p ys \<longrightarrow> prefix ys (fst (take_while s p log)))
   \<and> (fst (take_while s p log) \<noteq> s \<longrightarrow> \<not> p (s ! length (fst (take_while s p log))))
   \<and> snd (take_while s p log) = log @ take (length (fst (take_while s p log)) + 1) s
   \<and> take_while s (\<lambda>_. True) log = (s, log @ s)
   \<and> take_while [1, 2, 3, 4 :: int] (\<lambda>v. v < 3) [] = ([1, 2], [1, 2, 3])"
proof -
  have r: "fst (take_while s p log) = takeWhile p s"
    by (simp add: take_while_takeWhile)
  have "prefix (takeWhile p s) s"
    by (metis prefixI takeWhile_dropWhile_id)
  moreover have "list_all p (takeWhile p s)"
    by (auto simp: list_all_iff dest: set_takeWhileD)
  moreover have "\<forall>ys. prefix ys s \<and> list_all p ys \<longrightarrow> prefix ys (takeWhile p s)"
    by (blast intro: takeWhile_longest)
  moreover have "takeWhile p s \<noteq> s \<longrightarrow> \<not> p (s ! length (takeWhile p s))"
    using takeWhile_stops [of p s] by simp
  moreover have "snd (take_while s p log) = log @ take (length (takeWhile p s) + 1) s"
    by (simp add: take_while_takeWhile)
  moreover have "take_while s (\<lambda>_. True) log = (s, log @ s)"
  proof -
    have all: "takeWhile (\<lambda>_. True) s = s" by simp
    show ?thesis unfolding take_while_takeWhile all by simp
  qed
  moreover have "take_while [1, 2, 3, 4 :: int] (\<lambda>v. v < 3) [] = ([1, 2], [1, 2, 3])"
    by simp
  ultimately show ?thesis
    unfolding r by blast
qed

theorem take_while_longest_prefix_witness:
  "prefix [1] [1, 2, 3, 4 :: int] \<and> list_all (\<lambda>v. v < 3) [1 :: int]
   \<and> prefix [1] (fst (take_while [1, 2, 3, 4 :: int] (\<lambda>v. v < 3) []))
   \<and> fst (take_while [1, 2, 3, 4 :: int] (\<lambda>v. v < 3) []) \<noteq> [1, 2, 3, 4]
   \<and> \<not> [1, 2, 3, 4 :: int] ! length (fst (take_while [1, 2, 3, 4 :: int] (\<lambda>v. v < 3) [])) < 3"
  using take_while_longest_prefix [of "[1, 2, 3, 4 :: int]" "\<lambda>v. v < 3" "[]"]
  by simp

end
